theory Spec2Isabelle
  imports Complex_Main "HOL-Library.Word" "HOL-Library.AList"
begin

section \<open>The JNI shim around the inference library (llama-android.cpp)\<close>

text \<open>
  The file exports three functions to the Java side: \<open>nativeInit\<close>, \<open>nativeGenerate\<close>
  and \<open>nativeDestroy\<close>. All three are sequences of calls into collaborators that are
  not part of the file: the JNI environment, the C file API, the allocator and the
  inference library. The embedding keeps two things:
  \<^item> the \<^emph>\<open>trace\<close>: the calls made to the collaborators, in the order the code makes
    them, each with the arguments passed and the value that came back;
  \<^item> the \<^emph>\<open>heap\<close> of \<open>LlamaWrapper\<close> objects the shim allocates, indexed by address.

  What a collaborator answers is not decided by the shim, so it is a parameter: a
  \<open>library\<close> holds, for each function whose result the code reads, a function from the
  trace so far and the arguments to the result. Logging calls and clock reads are left
  out: no result of theirs is read by the code.
\<close>

subsection \<open>Data\<close>

type_synonym ptr = nat \<comment> \<open>an address; \<open>0\<close> is \<open>nullptr\<close>. A \<open>jlong\<close> handle carries it unchanged.\<close>
type_synonym jint = "32 word"
type_synonym llama_token = "32 word"

text \<open>Lines 19-23.\<close>

record LlamaWrapper =
  model :: ptr
  ctx :: ptr
  sampler :: ptr

text \<open>
  The fields of the library's parameter structs that the shim assigns; every other
  field keeps what the library's \<open>default_params\<close> function returned.
\<close>

record llama_model_params =
  n_gpu_layers :: int
  use_mmap :: bool
  use_mlock :: bool

record llama_context_params =
  n_ctx :: nat
  n_batch :: nat
  n_threads :: int
  n_threads_batch :: int

datatype sampler_kind =
    Temp rat \<comment> \<open>\<open>llama_sampler_init_temp(t)\<close>\<close>
  | Top_k int \<comment> \<open>\<open>llama_sampler_init_top_k(k)\<close>\<close>
  | Top_p rat nat \<comment> \<open>\<open>llama_sampler_init_top_p(p, min_keep)\<close>\<close>
  | Dist "32 word" \<comment> \<open>\<open>llama_sampler_init_dist(seed)\<close>\<close>

text \<open>
  One constructor per collaborator function; the last argument of a constructor is the
  value returned, where the function returns one.
\<close>

datatype event =
    GetStringUTFChars string bool \<comment> \<open>the Java string; \<open>False\<close>: \<open>NULL\<close> came back\<close>
  | ReleaseStringUTFChars string
  | NewStringUTF string
  | Fopen string bool \<comment> \<open>\<open>fopen(path, "rb")\<close>; \<open>False\<close>: \<open>NULL\<close> came back\<close>
  | Fseek_end
  | Ftell
  | Fclose
  | Backend_init
  | Backend_free
  | Model_default_params
  | Model_load_from_file string llama_model_params ptr
  | Model_free ptr
  | Context_default_params
  | Init_from_model ptr llama_context_params ptr
  | New_context_with_model ptr llama_context_params ptr
  | Llama_free ptr
  | N_ctx ptr "32 word"
  | N_batch ptr
  | Sampler_chain_default_params
  | Sampler_chain_init ptr
  | Sampler_init sampler_kind ptr
  | Sampler_chain_add ptr ptr
  | Sampler_free ptr
  | Model_get_vocab ptr ptr
  | Tokenize ptr string nat jint \<comment> \<open>vocab, text, capacity of the output buffer, result\<close>
  | Batch_get_one "llama_token list"
  | Decode ptr "llama_token list" jint
  | Sampler_sample ptr ptr llama_token
  | Vocab_is_eog ptr llama_token bool
  | Token_to_piece ptr llama_token jint string
  | New_wrapper ptr
  | Delete_wrapper ptr LlamaWrapper \<comment> \<open>the address and the object as it is when deleted\<close>

record library =
  jni_GetStringUTFChars :: "event list \<Rightarrow> string \<Rightarrow> bool"
  fopen_rb :: "event list \<Rightarrow> string \<Rightarrow> bool"
  llama_model_default_params :: llama_model_params
  llama_model_load_from_file :: "event list \<Rightarrow> string \<Rightarrow> llama_model_params \<Rightarrow> ptr"
  llama_context_default_params :: llama_context_params
  llama_init_from_model :: "event list \<Rightarrow> ptr \<Rightarrow> llama_context_params \<Rightarrow> ptr"
  llama_new_context_with_model :: "event list \<Rightarrow> ptr \<Rightarrow> llama_context_params \<Rightarrow> ptr"
  llama_n_ctx :: "event list \<Rightarrow> ptr \<Rightarrow> 32 word"
  llama_sampler_chain_init :: "event list \<Rightarrow> ptr"
  llama_sampler_init :: "event list \<Rightarrow> sampler_kind \<Rightarrow> ptr"
  LLAMA_DEFAULT_SEED :: "32 word" \<comment> \<open>a macro of \<open>llama.h\<close>, which is not in the repository\<close>
  llama_model_get_vocab :: "event list \<Rightarrow> ptr \<Rightarrow> ptr"
  llama_tokenize :: "event list \<Rightarrow> ptr \<Rightarrow> string \<Rightarrow> nat \<Rightarrow> jint \<times> llama_token list"
    \<comment> \<open>the result, and the tokens written to the output buffer\<close>
  llama_decode :: "event list \<Rightarrow> ptr \<Rightarrow> llama_token list \<Rightarrow> jint"
  llama_sampler_sample :: "event list \<Rightarrow> ptr \<Rightarrow> ptr \<Rightarrow> llama_token"
  llama_vocab_is_eog :: "event list \<Rightarrow> ptr \<Rightarrow> llama_token \<Rightarrow> bool"
  llama_token_to_piece :: "event list \<Rightarrow> ptr \<Rightarrow> llama_token \<Rightarrow> jint \<times> string"
    \<comment> \<open>the result, and the bytes written to the 256-byte buffer\<close>

record world =
  trace :: "event list"
  heap :: "(ptr \<times> LlamaWrapper) list"

text \<open>
  How a call ends. \<open>Aborted\<close>: a C++ exception leaves the native function, which ends
  the process. \<open>Undefined\<close>: the code dereferences a pointer that is null or not the
  address of a live wrapper.
\<close>

datatype 'a outcome = Returned 'a | Aborted | Undefined

subsection \<open>Helpers\<close>

definition emit :: "world \<Rightarrow> event list \<Rightarrow> world" where
  "emit w es = w\<lparr>trace := trace w @ es\<rparr>"

definition store :: "world \<Rightarrow> ptr \<Rightarrow> LlamaWrapper \<Rightarrow> world" where
  "store w p wr = w\<lparr>heap := AList.update p wr (heap w)\<rparr>"

text \<open>\<open>new\<close> returns an address that is not null and not in use.\<close>

definition fresh_ptr :: "(ptr \<times> LlamaWrapper) list \<Rightarrow> ptr" where
  "fresh_ptr hp = Suc (fold max (map fst hp) 0)"

text \<open>\<open>std::string::c_str()\<close> read as a C string: the bytes before the first NUL.\<close>

definition c_str :: "string \<Rightarrow> string" where
  "c_str s = takeWhile (\<lambda>ch. ch \<noteq> CHR 0x00) s"

text \<open>The string literal of line 195, as the UTF-8 bytes of the source file.\<close>

definition ctx_fail_msg :: string where
  "ctx_fail_msg =
     [CHR 0xE4, CHR 0xB8, CHR 0x8A, CHR 0xE4, CHR 0xB8, CHR 0x8B, CHR 0xE6, CHR 0x96, CHR 0x87,
      CHR 0xE9, CHR 0x87, CHR 0x8D, CHR 0xE5, CHR 0xBB, CHR 0xBA, CHR 0xE5, CHR 0xA4, CHR 0xB1,
      CHR 0xE8, CHR 0xB4, CHR 0xA5]"

subsection \<open>nativeInit (lines 25-147)\<close>

text \<open>Lines 59-64.\<close>

definition init_model_params :: "library \<Rightarrow> llama_model_params" where
  "init_model_params L =
     (llama_model_default_params L)\<lparr>n_gpu_layers := 0, use_mmap := True, use_mlock := False\<rparr>"

text \<open>Lines 93-99, and again lines 186-190.\<close>

definition shim_ctx_params :: "library \<Rightarrow> llama_context_params" where
  "shim_ctx_params L =
     (llama_context_default_params L)
       \<lparr>n_ctx := 2048, n_batch := 512, n_threads := 4, n_threads_batch := 4\<rparr>"

text \<open>
  One line of 127-130: the argument \<open>llama_sampler_init_...(...)\<close> is evaluated, then
  \<open>llama_sampler_chain_add\<close> is called with it.
\<close>

definition chain_add :: "library \<Rightarrow> ptr \<Rightarrow> sampler_kind \<Rightarrow> world \<Rightarrow> world" where
  "chain_add L s k w =
     (let t = llama_sampler_init L (trace w) k
      in emit w [Sampler_init k t, Sampler_chain_add s t])"

text \<open>
  The path is not checked for \<open>NULL\<close> (line 33) before \<open>fopen\<close> reads it: that run is
  \<open>Undefined\<close>.
\<close>

definition nativeInit :: "library \<Rightarrow> world \<Rightarrow> string \<Rightarrow> ptr outcome \<times> world" where
  "nativeInit L w model_path_jstr =
     (let got = jni_GetStringUTFChars L (trace w) model_path_jstr;
          w = emit w [GetStringUTFChars model_path_jstr got]
      in if \<not> got then (Undefined, w) else
      let model_path = model_path_jstr;
          file = fopen_rb L (trace w) model_path;
          w = emit w [Fopen model_path file]
      in if \<not> file then (Returned 0, emit w [ReleaseStringUTFChars model_path_jstr]) else
      let w = emit w [Fseek_end, Ftell, Fclose, Backend_init, Model_default_params];
          model_params = init_model_params L;
          m = llama_model_load_from_file L (trace w) model_path model_params;
          w = emit w [Model_load_from_file model_path model_params m,
                      ReleaseStringUTFChars model_path_jstr]
      in if m = 0 then (Returned 0, emit w [Backend_free]) else
      let w = emit w [Context_default_params];
          ctx_params = shim_ctx_params L;
          c = llama_init_from_model L (trace w) m ctx_params;
          w = emit w [Init_from_model m ctx_params c]
      in if c = 0 then (Returned 0, emit w [Model_free m, Backend_free]) else
      let w = emit w [Sampler_chain_default_params];
          s = llama_sampler_chain_init L (trace w);
          w = emit w [Sampler_chain_init s];
          w = chain_add L s (Temp (8 / 10)) w;
          w = chain_add L s (Top_k 40) w;
          w = chain_add L s (Top_p (95 / 100) 1) w;
          w = chain_add L s (Dist (LLAMA_DEFAULT_SEED L)) w;
          wrapper = fresh_ptr (heap w);
          w = emit (w\<lparr>heap := (wrapper, \<lparr>model = m, ctx = c, sampler = s\<rparr>) # heap w\<rparr>)
                [New_wrapper wrapper]
      in (Returned wrapper, w))"

subsection \<open>nativeDestroy (lines 422-450)\<close>

text \<open>Lines 431-444: each field is freed and set to null if it is not null already.\<close>

definition destroy_fields :: "world \<Rightarrow> LlamaWrapper \<Rightarrow> world \<times> LlamaWrapper" where
  "destroy_fields w wr =
     (let (w, wr) = (if sampler wr \<noteq> 0
                     then (emit w [Sampler_free (sampler wr)], wr\<lparr>sampler := 0\<rparr>) else (w, wr));
          (w, wr) = (if ctx wr \<noteq> 0
                     then (emit w [Llama_free (ctx wr)], wr\<lparr>ctx := 0\<rparr>) else (w, wr));
          (w, wr) = (if model wr \<noteq> 0
                     then (emit w [Model_free (model wr)], wr\<lparr>model := 0\<rparr>) else (w, wr))
      in (w, wr))"

definition nativeDestroy :: "world \<Rightarrow> ptr \<Rightarrow> unit outcome \<times> world" where
  "nativeDestroy w handle =
     (if handle = 0 then (Returned (), w) else
      case map_of (heap w) handle of
        None \<Rightarrow> (Undefined, w)
      | Some wr0 \<Rightarrow>
          let (w, wr) = destroy_fields w wr0;
              w = emit (w\<lparr>heap := AList.delete handle (heap w)\<rparr>)
                    [Delete_wrapper handle wr, Backend_free]
          in (Returned (), w))"

subsection \<open>nativeGenerate (lines 149-420)\<close>

text \<open>
  The generation loop, lines 349-386. \<open>i\<close> and \<open>n_decoded\<close> are C \<open>int\<close>s that start at
  \<open>0\<close> and are incremented only while \<open>i < max_tokens\<close>, so they never overflow and are
  modelled as \<open>int\<close>. The loop ends when \<open>i\<close> reaches \<open>max_tokens\<close> and at each of the
  four \<open>break\<close>s; it returns \<open>result\<close>, \<open>n_decoded\<close> and the world.
\<close>

function generation_loop ::
  "library \<Rightarrow> ptr \<Rightarrow> ptr \<Rightarrow> ptr \<Rightarrow> jint \<Rightarrow> int \<Rightarrow> string \<Rightarrow> int \<Rightarrow> world \<Rightarrow> string \<times> int \<times> world"
where
  "generation_loop L vocab c s max_tokens i result n_decoded w =
     (if \<not> i < sint max_tokens then (result, n_decoded, w) else
      let new_token_id = llama_sampler_sample L (trace w) s c;
          w = emit w [Sampler_sample s c new_token_id];
          eog = llama_vocab_is_eog L (trace w) vocab new_token_id;
          w = emit w [Vocab_is_eog vocab new_token_id eog]
      in if eog then (result, n_decoded, w) else
      let (n, buf) = llama_token_to_piece L (trace w) vocab new_token_id;
          w = emit w [Token_to_piece vocab new_token_id n buf]
      in if sint n < 0 then (result, n_decoded, w) else
      let result = (if sint n > 0 then result @ take (nat (sint n)) buf else result);
          w = emit w [Batch_get_one [new_token_id]];
          r = llama_decode L (trace w) c [new_token_id];
          w = emit w [Decode c [new_token_id] r]
      in if r \<noteq> 0 then (result, n_decoded, w) else
      generation_loop L vocab c s max_tokens (i + 1) result (n_decoded + 1) w)"
  by pat_completeness auto
termination
  by (relation "measure (\<lambda>(L, vocab, c, s, max_tokens, i, result, n_decoded, w).
                  nat (sint max_tokens - i))") auto

text \<open>
  Lines 249-254: the limit of the loop. The three arguments are C \<open>int\<close>s, and C \<open>int\<close>
  arithmetic is two's complement on 32 bits here (C++ itself leaves signed overflow
  undefined).
\<close>

definition effective_max_tokens :: "jint \<Rightarrow> jint \<Rightarrow> jint \<Rightarrow> jint" where
  "effective_max_tokens n_prompt_tokens max_tokens ctx_size =
     (if sint (n_prompt_tokens + max_tokens) > sint ctx_size
      then ctx_size - n_prompt_tokens - 10 else max_tokens)"

text \<open>
  Lines 198-419, entered with the recreated context \<open>c\<close>.

  \<^item> The characters \<open>GetStringUTFChars\<close> returns are the string's bytes; \<open>strlen\<close>
    (line 208) counts up to the first NUL, and the tokenizer is given that many.
  \<^item> The negation of line 226 and the product of line 344 are two's complement on 32
    bits as well.
  \<^item> \<open>tokens_list\<close> (line 258) is a vector of \<open>n_prompt_tokens\<close> zeros into which the
    second \<open>llama_tokenize\<close> writes.
  \<^item> \<open>result.reserve(max_tokens * 4)\<close> (line 344) converts the \<open>int\<close> to the unsigned
    \<open>size_t\<close>. A negative value becomes a request above \<open>PTRDIFF_MAX\<close>, more than
    \<open>max_size()\<close> or than any allocator grants: \<open>std::string\<close> throws
    \<open>std::length_error\<close> or \<open>std::bad_alloc\<close>, and nothing catches it. Every other
    allocation (the vector, the string as it grows, the wrapper) is taken to succeed.
  \<^item> Line 419 hands \<open>result.c_str()\<close> to \<open>NewStringUTF\<close>, which reads a C string.
\<close>

definition generate_from_prompt ::
  "library \<Rightarrow> world \<Rightarrow> ptr \<Rightarrow> ptr \<Rightarrow> ptr \<Rightarrow> string \<Rightarrow> jint \<Rightarrow> string outcome \<times> world"
where
  "generate_from_prompt L w m c s prompt_jstr max_tokens =
     (let w = emit w [N_ctx c (llama_n_ctx L (trace w) c), N_batch c];
          got = jni_GetStringUTFChars L (trace w) prompt_jstr;
          w = emit w [GetStringUTFChars prompt_jstr got]
      in if \<not> got then (Returned [], emit w [NewStringUTF []]) else
      let prompt = c_str prompt_jstr;
          vocab = llama_model_get_vocab L (trace w) m;
          w = emit w [Model_get_vocab m vocab]
      in if vocab = 0
         then (Returned [], emit w [ReleaseStringUTFChars prompt_jstr, NewStringUTF []]) else
      let r = fst (llama_tokenize L (trace w) vocab prompt 0);
          w = emit w [Tokenize vocab prompt 0 r];
          n_prompt_tokens = - r
      in if sint n_prompt_tokens \<le> 0
         then (Returned [], emit w [ReleaseStringUTFChars prompt_jstr, NewStringUTF []]) else
      let n_ctx = llama_n_ctx L (trace w) c;
          w = emit w [N_ctx c n_ctx];
          max_tokens = effective_max_tokens n_prompt_tokens max_tokens n_ctx;
          cap = nat (sint n_prompt_tokens);
          (actual_tokens, written) = llama_tokenize L (trace w) vocab prompt cap;
          tokens_list = take cap written @ replicate (cap - length written) 0;
          w = emit w [Tokenize vocab prompt cap actual_tokens,
                      ReleaseStringUTFChars prompt_jstr, Batch_get_one tokens_list];
          decode_result = llama_decode L (trace w) c tokens_list;
          w = emit w [Decode c tokens_list decode_result]
      in if decode_result \<noteq> 0 then (Returned [], emit w [NewStringUTF []]) else
      if sint (max_tokens * 4) < 0 then (Aborted, w) else
      let (result, n_decoded, w) = generation_loop L vocab c s max_tokens 0 [] 0 w
      in (Returned (c_str result), emit w [NewStringUTF (c_str result)]))"

text \<open>Lines 160-196, then the rest of the function.\<close>

definition nativeGenerate ::
  "library \<Rightarrow> world \<Rightarrow> ptr \<Rightarrow> string \<Rightarrow> jint \<Rightarrow> string outcome \<times> world"
where
  "nativeGenerate L w handle prompt_jstr max_tokens =
     (if handle = 0 then (Returned [], emit w [NewStringUTF []]) else
      case map_of (heap w) handle of
        None \<Rightarrow> (Undefined, w)
      | Some wr \<Rightarrow>
          if model wr = 0 then (Returned [], emit w [NewStringUTF []]) else
          let w = (if ctx wr \<noteq> 0
                   then store (emit w [Llama_free (ctx wr)]) handle (wr\<lparr>ctx := 0\<rparr>) else w);
              w = emit w [Context_default_params];
              ctx_params = shim_ctx_params L;
              c = llama_new_context_with_model L (trace w) (model wr) ctx_params;
              w = store (emit w [New_context_with_model (model wr) ctx_params c])
                    handle (wr\<lparr>ctx := c\<rparr>)
          in if c = 0 then (Returned ctx_fail_msg, emit w [NewStringUTF ctx_fail_msg]) else
          generate_from_prompt L w (model wr) c (sampler wr) prompt_jstr max_tokens)"

subsection \<open>Reading a trace\<close>

text \<open>
  The events at which the code of \<open>nativeGenerate\<close> finds a failure and leaves: a null
  context (line 193), a null prompt (line 204), a null vocabulary (line 215), a
  tokenizer result whose negation is not positive (line 238; the length query is the
  call with capacity \<open>0\<close>), a non-zero \<open>llama_decode\<close> (lines 331 and 380) and a
  negative \<open>llama_token_to_piece\<close> (line 368).
\<close>

fun detected_failure :: "event \<Rightarrow> bool" where
  "detected_failure (New_context_with_model _ _ c) = (c = 0)"
| "detected_failure (GetStringUTFChars _ got) = (\<not> got)"
| "detected_failure (Model_get_vocab _ vocab) = (vocab = 0)"
| "detected_failure (Tokenize _ _ cap r) = (cap = 0 \<and> sint (- r) \<le> 0)"
| "detected_failure (Decode _ _ r) = (r \<noteq> 0)"
| "detected_failure (Token_to_piece _ _ n _) = (sint n < 0)"
| "detected_failure _ = False"

text \<open>The text that line 374 has appended to \<open>result\<close> in the course of a trace.\<close>

fun appended :: "event list \<Rightarrow> string" where
  "appended [] = []"
| "appended (Token_to_piece _ _ n buf # es) =
     (if sint n > 0 then take (nat (sint n)) buf else []) @ appended es"
| "appended (_ # es) = appended es"

text \<open>Every iteration of the generation loop starts with \<open>llama_sampler_sample\<close>.\<close>

fun is_sample :: "event \<Rightarrow> bool" where
  "is_sample (Sampler_sample _ _ _) = True"
| "is_sample _ = False"

text \<open>
  What the call returns when event \<open>e\<close> is a detected failure and \<open>pre\<close> are the events
  of the call before it: the placeholder of line 195 for a context that could not be
  created, the empty string when the loop has not started, and the text appended so
  far when it has.
\<close>

definition failure_result :: "event list \<Rightarrow> event \<Rightarrow> string" where
  "failure_result pre e =
     (case e of
        New_context_with_model _ _ _ \<Rightarrow> ctx_fail_msg
      | _ \<Rightarrow> if list_ex is_sample pre then c_str (appended pre) else [])"

text \<open>A trace split at its first detected failure.\<close>

fun first_failure :: "event list \<Rightarrow> (event list \<times> event \<times> event list) option" where
  "first_failure [] = None"
| "first_failure (e # es) =
     (if detected_failure e then Some ([], e, es)
      else map_option (\<lambda>(pre, f, post). (e # pre, f, post)) (first_failure es))"

text \<open>The events of the loop: a failure, if there is one, is the last event.\<close>

definition loop_run :: "event list \<Rightarrow> bool" where
  "loop_run evs =
     (case first_failure evs of
        None \<Rightarrow> True
      | Some (pre, e, post) \<Rightarrow>
          post = [] \<and> list_ex is_sample pre \<and>
          (case e of New_context_with_model _ _ _ \<Rightarrow> False | _ \<Rightarrow> True))"

text \<open>
  The events of a call: after the first failure only the prompt is released and the
  returned string is built.
\<close>

definition handled :: "string \<Rightarrow> event list \<Rightarrow> string outcome \<Rightarrow> bool" where
  "handled p evs out =
     (case first_failure evs of
        None \<Rightarrow> True
      | Some (pre, e, post) \<Rightarrow>
          (post = [NewStringUTF (failure_result pre e)] \<or>
           post = [ReleaseStringUTFChars p, NewStringUTF (failure_result pre e)]) \<and>
          out = Returned (failure_result pre e))"

subsection \<open>A scripted library and two worlds, for concrete runs\<close>

fun is_decode :: "event \<Rightarrow> bool" where
  "is_decode (Decode _ _ _) = True"
| "is_decode _ = False"

text \<open>
  Every call succeeds, except that only the first \<open>k\<close> calls of \<open>llama_decode\<close> do. A
  prompt has three tokens, no sampled token ends the generation, and every token is
  the piece \<open>ok\<close>.
\<close>

definition demo_library :: "nat \<Rightarrow> library" where
  "demo_library k =
     \<lparr>jni_GetStringUTFChars = (\<lambda>tr s. True),
      fopen_rb = (\<lambda>tr path. True),
      llama_model_default_params = \<lparr>n_gpu_layers = 99, use_mmap = False, use_mlock = True\<rparr>,
      llama_model_load_from_file = (\<lambda>tr path mp. 11),
      llama_context_default_params =
        \<lparr>n_ctx = 512, n_batch = 2048, n_threads = 1, n_threads_batch = 1\<rparr>,
      llama_init_from_model = (\<lambda>tr m cp. 21),
      llama_new_context_with_model = (\<lambda>tr m cp. 22),
      llama_n_ctx = (\<lambda>tr c. 2048),
      llama_sampler_chain_init = (\<lambda>tr. 30),
      llama_sampler_init =
        (\<lambda>tr kind. case kind of Temp _ \<Rightarrow> 31 | Top_k _ \<Rightarrow> 32 | Top_p _ _ \<Rightarrow> 33 | Dist _ \<Rightarrow> 34),
      LLAMA_DEFAULT_SEED = 0xFFFFFFFF,
      llama_model_get_vocab = (\<lambda>tr m. 40),
      llama_tokenize = (\<lambda>tr vocab text cap. if cap = 0 then (- 3, []) else (3, [1, 7, 9])),
      llama_decode = (\<lambda>tr c toks. if length (filter is_decode tr) < k then 0 else 1),
      llama_sampler_sample = (\<lambda>tr s c. 5),
      llama_vocab_is_eog = (\<lambda>tr vocab tok. False),
      llama_token_to_piece = (\<lambda>tr vocab tok. (2, ''ok''))\<rparr>"

text \<open>The same library with a model file that cannot be opened.\<close>

definition no_file_library :: library where
  "no_file_library = (demo_library 1)\<lparr>fopen_rb := (\<lambda>tr path. False)\<rparr>"

text \<open>The same library with a model that does not load.\<close>

definition no_model_library :: library where
  "no_model_library = (demo_library 1)\<lparr>llama_model_load_from_file := (\<lambda>tr path mp. 0)\<rparr>"

text \<open>The same library with a context that cannot be created by \<open>nativeInit\<close>.\<close>

definition no_context_library :: library where
  "no_context_library = (demo_library 1)\<lparr>llama_init_from_model := (\<lambda>tr m cp. 0)\<rparr>"

text \<open>The same library with a prompt of 2040 tokens.\<close>

definition long_prompt_library :: library where
  "long_prompt_library =
     (demo_library 1)
       \<lparr>llama_tokenize :=
          (\<lambda>tr vocab text cap. if cap = 0 then (- 2040, []) else (2040, replicate 2040 1))\<rparr>"

text \<open>The world before any call, and a world with one initialised wrapper at address 1.\<close>

definition world0 :: world where
  "world0 = \<lparr>trace = [], heap = []\<rparr>"

definition world1 :: world where
  "world1 = \<lparr>trace = [], heap = [(1, \<lparr>model = 11, ctx = 21, sampler = 30\<rparr>)]\<rparr>"

text \<open>What \<open>nativeInit\<close> leaves behind when every call of the scripted library succeeds.\<close>

definition world_after_init :: world where
  "world_after_init =
     \<lparr>trace =
        [GetStringUTFChars ''model.gguf'' True, Fopen ''model.gguf'' True, Fseek_end,
         Ftell, Fclose, Backend_init, Model_default_params,
         Model_load_from_file ''model.gguf''
           \<lparr>n_gpu_layers = 0, use_mmap = True, use_mlock = False\<rparr> 11,
         ReleaseStringUTFChars ''model.gguf'', Context_default_params,
         Init_from_model 11
           \<lparr>n_ctx = 2048, n_batch = 512, n_threads = 4, n_threads_batch = 4\<rparr> 21,
         Sampler_chain_default_params, Sampler_chain_init 30,
         Sampler_init (Temp (8 / 10)) 31, Sampler_chain_add 30 31,
         Sampler_init (Top_k 40) 32, Sampler_chain_add 30 32,
         Sampler_init (Top_p (95 / 100) 1) 33, Sampler_chain_add 30 33,
         Sampler_init (Dist 0xFFFFFFFF) 34, Sampler_chain_add 30 34,
         New_wrapper 1],
      heap = [(1, \<lparr>model = 11, ctx = 21, sampler = 30\<rparr>)]\<rparr>"

section \<open>Properties\<close>

declare generation_loop.simps [simp del]

subsection \<open>The world and the heap\<close>

lemma trace_emit: "trace (emit w es) = trace w @ es"
  by (simp add: emit_def)

lemma heap_emit: "heap (emit w es) = heap w"
  by (simp add: emit_def)

lemma emit_emit: "emit (emit w es) fs = emit w (es @ fs)"
  by (simp add: emit_def)

lemma trace_store: "trace (store w p wr) = trace w"
  by (simp add: store_def)

lemma heap_store: "map_of (heap (store w p wr)) = (map_of (heap w))(p \<mapsto> wr)"
  by (simp add: store_def update_conv')

lemma fold_max_ge: "x \<in> set xs \<Longrightarrow> x \<le> fold max xs (a::nat)"
proof (induction xs arbitrary: a)
  case Nil
  then show ?case by simp
next
  case (Cons y ys)
  have mono: "b \<le> fold max ys b" for b :: nat
    by (induction ys arbitrary: b) (auto intro: order_trans [OF max.cobounded2])
  from Cons show ?case
    by (auto intro: order_trans [OF max.cobounded1 mono])
qed

lemma fresh_ptr_nonzero: "fresh_ptr hp \<noteq> 0" "0 < fresh_ptr hp"
  by (simp_all add: fresh_ptr_def)

lemma fresh_ptr_unused: "map_of hp (fresh_ptr hp) = None"
proof -
  have "fresh_ptr hp \<notin> fst ` set hp"
  proof
    assume "fresh_ptr hp \<in> fst ` set hp"
    then have "fresh_ptr hp \<in> set (map fst hp)" by simp
    then have "fresh_ptr hp \<le> fold max (map fst hp) 0" by (rule fold_max_ge)
    then show False by (simp add: fresh_ptr_def)
  qed
  then show ?thesis by (simp add: map_of_eq_None_iff)
qed

lemma trace_chain_add:
  "trace (chain_add L s k w) =
     trace w @ [Sampler_init k (llama_sampler_init L (trace w) k),
                Sampler_chain_add s (llama_sampler_init L (trace w) k)]"
  by (simp add: chain_add_def trace_emit Let_def)


lemma destroy_fields_eq:
  "destroy_fields w wr =
     (emit w ((if sampler wr \<noteq> 0 then [Sampler_free (sampler wr)] else []) @
              (if ctx wr \<noteq> 0 then [Llama_free (ctx wr)] else []) @
              (if model wr \<noteq> 0 then [Model_free (model wr)] else [])),
      \<lparr>model = 0, ctx = 0, sampler = 0\<rparr>)"
  by (simp add: destroy_fields_def emit_def)

subsection \<open>Traces with a failure\<close>

lemma appended_append: "appended (xs @ ys) = appended xs @ appended ys"
  by (induction xs rule: appended.induct) simp_all

lemma first_failure_append:
  "first_failure xs = None \<Longrightarrow>
   first_failure (xs @ ys) = map_option (\<lambda>(pre, f, post). (xs @ pre, f, post)) (first_failure ys)"
proof (induction xs)
  case Nil
  then show ?case by (simp add: option.map_ident split_def)
next
  case (Cons x xs)
  then show ?case
    by (auto simp: option.map_comp comp_def split_def split: if_splits)
qed

lemma first_failure_Some:
  "first_failure evs = Some (pre, e, post) \<Longrightarrow>
   evs = pre @ e # post \<and> detected_failure e \<and> first_failure pre = None"
proof (induction evs arbitrary: pre)
  case Nil
  then show ?case by simp
next
  case (Cons x xs)
  then show ?case by (fastforce split: if_splits)
qed

lemma first_failure_None:
  "first_failure evs = None \<Longrightarrow> e \<in> set evs \<Longrightarrow> \<not> detected_failure e"
  by (induction evs) (auto split: if_splits)

lemma first_failure_unique:
  assumes "first_failure evs = Some (pre, e, post)"
    and "first_failure post = None"
    and "evs = pre' @ e' # post'" and "detected_failure e'"
  shows "pre' = pre \<and> e' = e \<and> post' = post"
  using assms
proof (induction evs arbitrary: pre pre')
  case Nil
  then show ?case by simp
next
  case (Cons x xs)
  show ?case
  proof (cases "detected_failure x")
    case True
    with Cons.prems(1) have eq: "pre = []" "e = x" "post = xs" by auto
    show ?thesis
    proof (cases pre')
      case Nil
      with Cons.prems(3) eq show ?thesis by simp
    next
      case (Cons y ys)
      with Cons.prems(3) have "e' \<in> set xs" by auto
      with Cons.prems(2,4) eq first_failure_None show ?thesis by blast
    qed
  next
    case False
    with Cons.prems(1) obtain pre0 where
      ff: "first_failure xs = Some (pre0, e, post)" and pre: "pre = x # pre0"
      by (auto split: if_splits)
    from False Cons.prems(3,4) obtain ys where pre': "pre' = x # ys" and xs: "xs = ys @ e' # post'"
      by (cases pre') auto
    from Cons.IH [OF ff Cons.prems(2) xs Cons.prems(4)] pre pre' show ?thesis by simp
  qed
qed

lemma first_failure_append_Some:
  "first_failure xs = Some (pre, e, post) \<Longrightarrow> first_failure (xs @ ys) = Some (pre, e, post @ ys)"
  by (induction xs arbitrary: pre) (auto split: if_splits)

lemma appended_failure: "detected_failure e \<Longrightarrow> appended [e] = []"
  by (cases e) simp_all

lemma failure_result_prefix:
  "\<not> list_ex is_sample xs \<Longrightarrow> appended xs = [] \<Longrightarrow>
   failure_result (xs @ pre) e = failure_result pre e"
  by (simp add: failure_result_def appended_append split: event.splits)

lemma handled_prefix:
  assumes "first_failure xs = None" and "\<not> list_ex is_sample xs" and "appended xs = []"
    and "handled p evs out"
  shows "handled p (xs @ evs) out"
  using assms
  by (auto simp: handled_def first_failure_append failure_result_prefix split: option.splits)

lemma handled_loop:
  assumes "loop_run evs"
  shows "handled p (evs @ [NewStringUTF (c_str (appended evs))]) (Returned (c_str (appended evs)))"
proof (cases "first_failure evs")
  case None
  then show ?thesis by (simp add: handled_def first_failure_append)
next
  case (Some t)
  obtain pre e post where t: "t = (pre, e, post)" by (cases t)
  from Some t assms have post: "post = []" and smp: "list_ex is_sample pre"
    and e: "(case e of New_context_with_model _ _ _ \<Rightarrow> False | _ \<Rightarrow> True)"
    by (simp_all add: loop_run_def)
  from Some t have evs: "evs = pre @ e # post" and fe: "detected_failure e"
    using first_failure_Some by blast+
  have "appended evs = appended pre"
    using evs post appended_failure [OF fe] by (simp add: appended_append)
  moreover have "failure_result pre e = c_str (appended pre)"
    using e smp by (simp add: failure_result_def split: event.splits)
  ultimately show ?thesis
    using Some t post by (simp add: handled_def first_failure_append_Some)
qed

lemma handled_forall:
  assumes "handled p evs out" and "evs = pre @ e # post" and "detected_failure e"
  shows "(post = [NewStringUTF (failure_result pre e)] \<or>
          post = [ReleaseStringUTFChars p, NewStringUTF (failure_result pre e)]) \<and>
         out = Returned (failure_result pre e)"
proof (cases "first_failure evs")
  case None
  with assms(2,3) first_failure_None [of evs e] show ?thesis by simp
next
  case (Some t)
  obtain pre0 e0 post0 where t: "t = (pre0, e0, post0)" by (cases t)
  from Some t assms(1) have h:
    "post0 = [NewStringUTF (failure_result pre0 e0)] \<or>
     post0 = [ReleaseStringUTFChars p, NewStringUTF (failure_result pre0 e0)]"
    "out = Returned (failure_result pre0 e0)"
    by (simp_all add: handled_def)
  from h(1) have "first_failure post0 = None" by auto
  with Some t assms(2,3) have "pre = pre0 \<and> e = e0 \<and> post = post0"
    using first_failure_unique by blast
  with h show ?thesis by simp
qed

subsection \<open>The generation loop and the calls before it\<close>

lemma loop_run_step:
  assumes "first_failure xs = None" and "list_ex is_sample xs" and "loop_run evs"
  shows "loop_run (xs @ evs)"
  using assms
  by (auto simp: loop_run_def first_failure_append split: option.splits)

lemma generation_loop_events:
  "\<exists>evs. snd (snd (generation_loop L vocab c s max_tokens i result n_decoded w)) = emit w evs \<and>
          fst (generation_loop L vocab c s max_tokens i result n_decoded w) =
            result @ appended evs \<and>
          loop_run evs"
proof (induction L vocab c s max_tokens i result n_decoded w rule: generation_loop.induct)
  case (1 L vocab c s max_tokens i result n_decoded w)
  define tok where "tok = llama_sampler_sample L (trace w) s c"
  define w1 where "w1 = emit w [Sampler_sample s c tok]"
  define eog where "eog = llama_vocab_is_eog L (trace w1) vocab tok"
  define w2 where "w2 = emit w1 [Vocab_is_eog vocab tok eog]"
  define n where "n = fst (llama_token_to_piece L (trace w2) vocab tok)"
  define buf where "buf = snd (llama_token_to_piece L (trace w2) vocab tok)"
  define w3 where "w3 = emit w2 [Token_to_piece vocab tok n buf]"
  define result' where
    "result' = (if sint n > 0 then result @ take (nat (sint n)) buf else result)"
  define w4 where "w4 = emit w3 [Batch_get_one [tok]]"
  define r where "r = llama_decode L (trace w4) c [tok]"
  define w5 where "w5 = emit w4 [Decode c [tok] r]"
  note defs = tok_def w1_def eog_def w2_def n_def buf_def w3_def result'_def w4_def r_def w5_def
  have unfold: "generation_loop L vocab c s max_tokens i result n_decoded w =
     (if \<not> i < sint max_tokens then (result, n_decoded, w)
      else if eog then (result, n_decoded, w2)
      else if sint n < 0 then (result, n_decoded, w3)
      else if r \<noteq> 0 then (result', n_decoded, w5)
      else generation_loop L vocab c s max_tokens (i + 1) result' (n_decoded + 1) w5)"
    by (subst generation_loop.simps) (simp add: defs Let_def split_def)
  consider (finished) "\<not> i < sint max_tokens"
    | (eog) "i < sint max_tokens" "eog"
    | (piece) "i < sint max_tokens" "\<not> eog" "sint n < 0"
    | (decode) "i < sint max_tokens" "\<not> eog" "\<not> sint n < 0" "r \<noteq> 0"
    | (continue) "i < sint max_tokens" "\<not> eog" "\<not> sint n < 0" "r = 0"
    by blast
  then show ?case
  proof cases
    case finished
    then show ?thesis
      by (intro exI [of _ "[]"]) (simp add: unfold emit_def loop_run_def)
  next
    case eog
    then show ?thesis
      by (intro exI [of _ "[Sampler_sample s c tok, Vocab_is_eog vocab tok eog]"])
        (simp add: unfold w2_def w1_def emit_emit loop_run_def)
  next
    case piece
    then show ?thesis
      by (intro exI [of _ "[Sampler_sample s c tok, Vocab_is_eog vocab tok eog,
                            Token_to_piece vocab tok n buf]"])
        (simp add: unfold w3_def w2_def w1_def emit_emit loop_run_def)
  next
    case decode
    then show ?thesis
      by (intro exI [of _ "[Sampler_sample s c tok, Vocab_is_eog vocab tok eog,
                            Token_to_piece vocab tok n buf, Batch_get_one [tok],
                            Decode c [tok] r]"])
        (simp add: unfold w5_def w4_def w3_def w2_def w1_def emit_emit loop_run_def result'_def)
  next
    case continue
    let ?it = "[Sampler_sample s c tok, Vocab_is_eog vocab tok eog,
                Token_to_piece vocab tok n buf, Batch_get_one [tok], Decode c [tok] r]"
    have w5: "w5 = emit w ?it"
      by (simp add: w5_def w4_def w3_def w2_def w1_def emit_emit)
    have "\<exists>evs. snd (snd (generation_loop L vocab c s max_tokens (i + 1) result' (n_decoded + 1) w5))
                  = emit w5 evs \<and>
            fst (generation_loop L vocab c s max_tokens (i + 1) result' (n_decoded + 1) w5) =
              result' @ appended evs \<and> loop_run evs"
      using continue "1.IH" [of tok w1 eog w2 "(n, buf)" n buf w3 result' w4 r w5]
      by (simp add: defs)
    then obtain evs where
      evs: "snd (snd (generation_loop L vocab c s max_tokens (i + 1) result' (n_decoded + 1) w5))
              = emit w5 evs"
        "fst (generation_loop L vocab c s max_tokens (i + 1) result' (n_decoded + 1) w5) =
              result' @ appended evs"
        "loop_run evs"
      by blast
    have run: "loop_run (?it @ evs)"
      using continue by (intro loop_run_step evs) simp_all
    have app: "result' @ appended evs = result @ appended (?it @ evs)"
      by (simp add: result'_def)
    show ?thesis
      using continue evs(1,2) run app
      by (intro exI [of _ "?it @ evs"]) (simp add: unfold w5 emit_emit)
  qed
qed

lemma effective_max_tokens_le:
  assumes "sint n_prompt_tokens + sint max_tokens \<le> 2 ^ 31 - 1"
    and "- (2 ^ 31) \<le> sint n_prompt_tokens + sint max_tokens"
    and "- (2 ^ 31) \<le> sint ctx_size - sint n_prompt_tokens - 10"
    and "sint ctx_size - sint n_prompt_tokens \<le> 2 ^ 31 - 1"
    and "- (2 ^ 31) \<le> sint ctx_size - sint n_prompt_tokens"
  shows "sint (effective_max_tokens n_prompt_tokens max_tokens ctx_size) \<le> sint max_tokens"
proof -
  have add: "sint (n_prompt_tokens + max_tokens) = sint n_prompt_tokens + sint max_tokens"
    using assms(1,2) by (simp add: sint_word_ariths signed_take_bit_int_eq_self)
  have sub: "sint (ctx_size - n_prompt_tokens) = sint ctx_size - sint n_prompt_tokens"
    using assms(4,5) by (simp add: sint_word_ariths signed_take_bit_int_eq_self)
  have "sint (ctx_size - n_prompt_tokens - 10) = sint (ctx_size - n_prompt_tokens) - sint (10 :: jint)"
    using assms(3,4) sub by (simp add: sint_word_ariths signed_take_bit_int_eq_self)
  then have sub10: "sint (ctx_size - n_prompt_tokens - 10) = sint ctx_size - sint n_prompt_tokens - 10"
    using sub by simp
  show ?thesis
    using add sub10 by (simp add: effective_max_tokens_def)
qed

lemma generation_loop_decoded_bound:
  "fst (snd (generation_loop L vocab c s max_tokens i result n_decoded w))
     \<le> n_decoded + max 0 (sint max_tokens - i)"
proof (induction L vocab c s max_tokens i result n_decoded w rule: generation_loop.induct)
  case (1 L vocab c s max_tokens i result n_decoded w)
  show ?case
  proof (cases "i < sint max_tokens")
    case False
    then show ?thesis by (subst generation_loop.simps) simp
  next
    case True
    show ?thesis
      using True "1.IH"
      by (subst generation_loop.simps) (auto simp: Let_def split_def split: if_splits)
  qed
qed

lemma generate_from_prompt_run:
  "\<exists>out evs. generate_from_prompt L w m c s p mt = (out, emit w evs) \<and> handled p evs out"
proof -
  define w1 where "w1 = emit w [N_ctx c (llama_n_ctx L (trace w) c), N_batch c]"
  define got where "got = jni_GetStringUTFChars L (trace w1) p"
  define w2 where "w2 = emit w1 [GetStringUTFChars p got]"
  define vocab where "vocab = llama_model_get_vocab L (trace w2) m"
  define w3 where "w3 = emit w2 [Model_get_vocab m vocab]"
  define r where "r = fst (llama_tokenize L (trace w3) vocab (c_str p) 0)"
  define w4 where "w4 = emit w3 [Tokenize vocab (c_str p) 0 r]"
  define nctx where "nctx = llama_n_ctx L (trace w4) c"
  define w5 where "w5 = emit w4 [N_ctx c nctx]"
  define lim where "lim = effective_max_tokens (- r) mt nctx"
  define cap where "cap = nat (sint (- r))"
  define actual where "actual = fst (llama_tokenize L (trace w5) vocab (c_str p) cap)"
  define written where "written = snd (llama_tokenize L (trace w5) vocab (c_str p) cap)"
  define toks where "toks = take cap written @ replicate (cap - length written) 0"
  define w6 where "w6 = emit w5 [Tokenize vocab (c_str p) cap actual,
                                  ReleaseStringUTFChars p, Batch_get_one toks]"
  define d where "d = llama_decode L (trace w6) c toks"
  define w7 where "w7 = emit w6 [Decode c toks d]"
  define loop where "loop = generation_loop L vocab c s lim 0 [] 0 w7"
  note defs = w1_def got_def w2_def vocab_def w3_def r_def w4_def nctx_def w5_def lim_def
    cap_def actual_def written_def toks_def w6_def d_def w7_def loop_def
  have unfold: "generate_from_prompt L w m c s p mt =
     (if \<not> got then (Returned [], emit w2 [NewStringUTF []])
      else if vocab = 0 then (Returned [], emit w3 [ReleaseStringUTFChars p, NewStringUTF []])
      else if sint (- r) \<le> 0
        then (Returned [], emit w4 [ReleaseStringUTFChars p, NewStringUTF []])
      else if d \<noteq> 0 then (Returned [], emit w7 [NewStringUTF []])
      else if sint (lim * 4) < 0 then (Aborted, w7)
      else (Returned (c_str (fst loop)),
            emit (snd (snd loop)) [NewStringUTF (c_str (fst loop))]))"
    by (simp only: generate_from_prompt_def defs Let_def split_def)
  let ?e1 = "[N_ctx c (llama_n_ctx L (trace w) c), N_batch c, GetStringUTFChars p got]"
  let ?e2 = "?e1 @ [Model_get_vocab m vocab]"
  let ?e3 = "?e2 @ [Tokenize vocab (c_str p) 0 r]"
  let ?e4 = "?e3 @ [N_ctx c nctx, Tokenize vocab (c_str p) cap actual,
                     ReleaseStringUTFChars p, Batch_get_one toks, Decode c toks d]"
  have w2: "w2 = emit w ?e1" by (simp add: w2_def w1_def emit_emit)
  have w3: "w3 = emit w ?e2" by (simp add: w3_def w2 emit_emit)
  have w4: "w4 = emit w ?e3" by (simp add: w4_def w3 emit_emit)
  have w7: "w7 = emit w ?e4" by (simp add: w7_def w6_def w5_def w4 emit_emit)
  consider (prompt) "\<not> got"
    | (vocab) "got" "vocab = 0"
    | (tokens) "got" "vocab \<noteq> 0" "sint (- r) \<le> 0"
    | (decode) "got" "vocab \<noteq> 0" "\<not> sint (- r) \<le> 0" "d \<noteq> 0"
    | (reserve) "got" "vocab \<noteq> 0" "\<not> sint (- r) \<le> 0" "d = 0" "sint (lim * 4) < 0"
    | (loop) "got" "vocab \<noteq> 0" "\<not> sint (- r) \<le> 0" "d = 0" "\<not> sint (lim * 4) < 0"
    by blast
  then show ?thesis
  proof cases
    case prompt
    then show ?thesis
      by (intro exI [of _ "Returned []"] exI [of _ "?e1 @ [NewStringUTF []]"])
        (simp add: unfold w2 emit_emit handled_def failure_result_def)
  next
    case vocab
    then show ?thesis
      by (intro exI [of _ "Returned []"]
            exI [of _ "?e2 @ [ReleaseStringUTFChars p, NewStringUTF []]"])
        (simp add: unfold w3 emit_emit handled_def failure_result_def)
  next
    case tokens
    then show ?thesis
      by (intro exI [of _ "Returned []"]
            exI [of _ "?e3 @ [ReleaseStringUTFChars p, NewStringUTF []]"])
        (simp add: unfold w4 emit_emit handled_def failure_result_def)
  next
    case decode
    then have "cap \<noteq> 0" by (simp add: cap_def)
    with decode show ?thesis
      by (intro exI [of _ "Returned []"] exI [of _ "?e4 @ [NewStringUTF []]"])
        (simp add: unfold w7 emit_emit handled_def failure_result_def)
  next
    case reserve
    then have "cap \<noteq> 0" by (simp add: cap_def)
    with reserve show ?thesis
      by (intro exI [of _ Aborted] exI [of _ ?e4]) (simp add: unfold w7 handled_def)
  next
    case loop
    then have cap: "cap \<noteq> 0" by (simp add: cap_def)
    from generation_loop_events [of L vocab c s lim 0 "[]" 0 w7]
    obtain evs where evs: "snd (snd loop) = emit w7 evs" "fst loop = appended evs" "loop_run evs"
      by (auto simp: loop_def)
    have "handled p (?e4 @ evs @ [NewStringUTF (c_str (appended evs))])
            (Returned (c_str (appended evs)))"
      using loop cap by (intro handled_prefix handled_loop evs(3)) simp_all
    with loop evs(1,2) show ?thesis
      by (intro exI [of _ "Returned (c_str (appended evs))"]
            exI [of _ "?e4 @ evs @ [NewStringUTF (c_str (appended evs))]"])
        (simp add: unfold w7 emit_emit)
  qed
qed

lemma nativeGenerate_run:
  fixes L :: library and w :: world and wr :: LlamaWrapper
  assumes "h \<noteq> 0" and "map_of (heap w) h = Some wr" and "model wr \<noteq> 0"
  defines "fr \<equiv> (if ctx wr \<noteq> 0 then [Llama_free (ctx wr)] else [])"
  defines "c \<equiv> llama_new_context_with_model L (trace w @ fr @ [Context_default_params])
                  (model wr) (shim_ctx_params L)"
  shows "\<exists>out w' rest. nativeGenerate L w h p mt = (out, w') \<and>
           trace w' = trace w @ fr @ [Context_default_params,
                        New_context_with_model (model wr) (shim_ctx_params L) c] @ rest \<and>
           map_of (heap w') h = Some (wr\<lparr>ctx := c\<rparr>) \<and>
           (c = 0 \<longrightarrow> out = Returned ctx_fail_msg \<and> rest = [NewStringUTF ctx_fail_msg]) \<and>
           (c \<noteq> 0 \<longrightarrow> handled p rest out)"
proof -
  define w1 where "w1 = (if ctx wr \<noteq> 0
                          then store (emit w [Llama_free (ctx wr)]) h (wr\<lparr>ctx := 0\<rparr>) else w)"
  define w2 where "w2 = emit w1 [Context_default_params]"
  define w3 where "w3 = store (emit w2 [New_context_with_model (model wr) (shim_ctx_params L) c])
                          h (wr\<lparr>ctx := c\<rparr>)"
  have tr1: "trace w1 = trace w @ fr"
    by (simp add: w1_def fr_def trace_store trace_emit)
  have tr2: "trace w2 = trace w @ fr @ [Context_default_params]"
    by (simp add: w2_def tr1 trace_emit)
  have tr3: "trace w3 = trace w @ fr @ [Context_default_params,
                          New_context_with_model (model wr) (shim_ctx_params L) c]"
    by (simp add: w3_def tr2 trace_store trace_emit)
  have hp3: "map_of (heap w3) h = Some (wr\<lparr>ctx := c\<rparr>)"
    by (simp add: w3_def heap_store)
  have unfold: "nativeGenerate L w h p mt =
      (if c = 0 then (Returned ctx_fail_msg, emit w3 [NewStringUTF ctx_fail_msg])
       else generate_from_prompt L w3 (model wr) c (sampler wr) p mt)"
    using assms(1-3) tr2
    by (simp add: nativeGenerate_def Let_def w3_def w2_def w1_def c_def)
  show ?thesis
  proof (cases "c = 0")
    case True
    then show ?thesis
      using tr3 hp3
      by (intro exI [of _ "Returned ctx_fail_msg"]
            exI [of _ "emit w3 [NewStringUTF ctx_fail_msg]"]
            exI [of _ "[NewStringUTF ctx_fail_msg]"])
        (simp add: unfold trace_emit heap_emit)
  next
    case False
    from generate_from_prompt_run [of L w3 "model wr" c "sampler wr" p mt]
    obtain out evs where
      run: "generate_from_prompt L w3 (model wr) c (sampler wr) p mt = (out, emit w3 evs)"
      and hd: "handled p evs out"
      by blast
    from False run hd tr3 hp3 show ?thesis
      by (intro exI [of _ out] exI [of _ "emit w3 evs"] exI [of _ evs])
        (simp add: unfold trace_emit heap_emit)
  qed
qed

lemmas run_defs = nativeGenerate_def generate_from_prompt_def effective_max_tokens_def
  generation_loop.simps
  emit_def store_def shim_ctx_params_def c_str_def Let_def

subsection \<open>nativeInit\<close>

text \<open>
  C3. \<open>nativeInit\<close> opens the model file before it calls the library: whenever the
  path string is obtained, the first two events of the call are \<open>GetStringUTFChars\<close>
  and \<open>fopen\<close>. If \<open>fopen\<close> returns null, the call releases the path string and returns
  the handle \<open>0\<close>: these three events are all it does, so the backend is not
  initialised, no model is loaded and the heap is unchanged.
\<close>

theorem nativeInit_file_not_opened:
  assumes "jni_GetStringUTFChars L (trace w) p"
  shows "(\<exists>rest. trace (snd (nativeInit L w p)) =
            trace w @ GetStringUTFChars p True
              # Fopen p (fopen_rb L (trace w @ [GetStringUTFChars p True]) p) # rest) \<and>
         (\<not> fopen_rb L (trace w @ [GetStringUTFChars p True]) p \<longrightarrow>
            nativeInit L w p =
              (Returned 0,
               emit w [GetStringUTFChars p True, Fopen p False, ReleaseStringUTFChars p]))"
  using assms
  by (simp add: nativeInit_def Let_def trace_emit emit_emit trace_chain_add)

theorem nativeInit_file_not_opened_witness:
  "jni_GetStringUTFChars no_file_library (trace world0) ''model.gguf'' \<and>
   \<not> fopen_rb no_file_library (trace world0 @ [GetStringUTFChars ''model.gguf'' True])
       ''model.gguf'' \<and>
   nativeInit no_file_library world0 ''model.gguf'' =
     (Returned 0,
      \<lparr>trace = [GetStringUTFChars ''model.gguf'' True, Fopen ''model.gguf'' False,
                ReleaseStringUTFChars ''model.gguf''],
       heap = []\<rparr>)"
  using nativeInit_file_not_opened [of no_file_library world0 "''model.gguf''"]
  by (simp add: no_file_library_def demo_library_def world0_def emit_def)

text \<open>
  C4. Whenever the path string is obtained, \<open>nativeInit\<close> returns a handle, and the
  handle is \<open>0\<close> exactly when the library's \<open>fopen\<close> returns null, or its model load
  returns null, or its context creation returns null, each asked at the point of the
  trace where the code calls it. The three failing runs are given whole: the heap is
  unchanged, nothing is freed when the file cannot be opened, the backend is freed when
  the model does not load, and the model, then the backend are freed when the context
  cannot be created. The successful run is given whole as well: the handle is a new
  address other than \<open>0\<close>, at which the heap holds a wrapper with the loaded model, the
  created context and the pointer the library's \<open>llama_sampler_chain_init\<close> returned
  (which the code does not check), and nothing is freed.
\<close>

theorem nativeInit_handle:
  assumes "jni_GetStringUTFChars L (trace w) p"
  shows "let t0 = trace w @ [GetStringUTFChars p True];
             f = fopen_rb L t0 p;
             t1 = t0 @ [Fopen p True, Fseek_end, Ftell, Fclose, Backend_init,
                        Model_default_params];
             mp = init_model_params L;
             m = llama_model_load_from_file L t1 p mp;
             t2 = t1 @ [Model_load_from_file p mp m, ReleaseStringUTFChars p,
                        Context_default_params];
             cp = shim_ctx_params L;
             c = llama_init_from_model L t2 m cp;
             t3 = t2 @ [Init_from_model m cp c, Sampler_chain_default_params];
             s = llama_sampler_chain_init L t3;
             t4 = t3 @ [Sampler_chain_init s];
             a1 = llama_sampler_init L t4 (Temp (8 / 10));
             t5 = t4 @ [Sampler_init (Temp (8 / 10)) a1, Sampler_chain_add s a1];
             a2 = llama_sampler_init L t5 (Top_k 40);
             t6 = t5 @ [Sampler_init (Top_k 40) a2, Sampler_chain_add s a2];
             a3 = llama_sampler_init L t6 (Top_p (95 / 100) 1);
             t7 = t6 @ [Sampler_init (Top_p (95 / 100) 1) a3, Sampler_chain_add s a3];
             a4 = llama_sampler_init L t7 (Dist (LLAMA_DEFAULT_SEED L));
             t8 = t7 @ [Sampler_init (Dist (LLAMA_DEFAULT_SEED L)) a4, Sampler_chain_add s a4];
             h = fresh_ptr (heap w)
         in (fst (nativeInit L w p) = Returned 0 \<longleftrightarrow> \<not> f \<or> m = 0 \<or> c = 0) \<and>
            (\<not> f \<longrightarrow>
               nativeInit L w p =
                 (Returned 0,
                  \<lparr>trace = t0 @ [Fopen p False, ReleaseStringUTFChars p], heap = heap w\<rparr>)) \<and>
            (f \<and> m = 0 \<longrightarrow>
               nativeInit L w p =
                 (Returned 0,
                  \<lparr>trace = t1 @ [Model_load_from_file p mp 0, ReleaseStringUTFChars p,
                                  Backend_free],
                   heap = heap w\<rparr>)) \<and>
            (f \<and> m \<noteq> 0 \<and> c = 0 \<longrightarrow>
               nativeInit L w p =
                 (Returned 0,
                  \<lparr>trace = t2 @ [Init_from_model m cp 0, Model_free m, Backend_free],
                   heap = heap w\<rparr>)) \<and>
            (f \<and> m \<noteq> 0 \<and> c \<noteq> 0 \<longrightarrow>
               h \<noteq> 0 \<and> map_of (heap w) h = None \<and>
               nativeInit L w p =
                 (Returned h,
                  \<lparr>trace = t8 @ [New_wrapper h],
                   heap = (h, \<lparr>model = m, ctx = c, sampler = s\<rparr>) # heap w\<rparr>))"
proof -
  have nz: "fresh_ptr (heap w) \<noteq> 0" by (rule fresh_ptr_nonzero)
  have unused: "map_of (heap w) (fresh_ptr (heap w)) = None" by (rule fresh_ptr_unused)
  show ?thesis
    using assms nz unused
    by (simp add: nativeInit_def chain_add_def Let_def emit_def)
qed

theorem nativeInit_handle_witness:
  "jni_GetStringUTFChars (demo_library 1) (trace world0) ''model.gguf'' \<and>
   nativeInit (demo_library 1) world0 ''model.gguf'' = (Returned 1, world_after_init) \<and>
   nativeInit no_file_library world0 ''model.gguf'' =
     (Returned 0,
      \<lparr>trace = [GetStringUTFChars ''model.gguf'' True, Fopen ''model.gguf'' False,
                ReleaseStringUTFChars ''model.gguf''],
       heap = []\<rparr>) \<and>
   nativeInit no_model_library world0 ''model.gguf'' =
     (Returned 0,
      \<lparr>trace = [GetStringUTFChars ''model.gguf'' True, Fopen ''model.gguf'' True, Fseek_end,
                Ftell, Fclose, Backend_init, Model_default_params,
                Model_load_from_file ''model.gguf''
                  \<lparr>n_gpu_layers = 0, use_mmap = True, use_mlock = False\<rparr> 0,
                ReleaseStringUTFChars ''model.gguf'', Backend_free],
       heap = []\<rparr>) \<and>
   nativeInit no_context_library world0 ''model.gguf'' =
     (Returned 0,
      \<lparr>trace = [GetStringUTFChars ''model.gguf'' True, Fopen ''model.gguf'' True, Fseek_end,
                Ftell, Fclose, Backend_init, Model_default_params,
                Model_load_from_file ''model.gguf''
                  \<lparr>n_gpu_layers = 0, use_mmap = True, use_mlock = False\<rparr> 11,
                ReleaseStringUTFChars ''model.gguf'', Context_default_params,
                Init_from_model 11
                  \<lparr>n_ctx = 2048, n_batch = 512, n_threads = 4, n_threads_batch = 4\<rparr> 0,
                Model_free 11, Backend_free],
       heap = []\<rparr>)"
proof -
  have ok: "nativeInit (demo_library 1) world0 ''model.gguf'' = (Returned 1, world_after_init)"
    using nativeInit_handle [of "demo_library 1" world0 "''model.gguf''"]
    by (simp add: Let_def demo_library_def world0_def world_after_init_def fresh_ptr_def
        init_model_params_def shim_ctx_params_def)
  have nofile: "nativeInit no_file_library world0 ''model.gguf'' =
     (Returned 0,
      \<lparr>trace = [GetStringUTFChars ''model.gguf'' True, Fopen ''model.gguf'' False,
                ReleaseStringUTFChars ''model.gguf''],
       heap = []\<rparr>)"
    using nativeInit_handle [of no_file_library world0 "''model.gguf''"]
    by (simp add: Let_def no_file_library_def demo_library_def world0_def)
  have load: "nativeInit no_model_library world0 ''model.gguf'' =
     (Returned 0,
      \<lparr>trace = [GetStringUTFChars ''model.gguf'' True, Fopen ''model.gguf'' True, Fseek_end,
                Ftell, Fclose, Backend_init, Model_default_params,
                Model_load_from_file ''model.gguf''
                  \<lparr>n_gpu_layers = 0, use_mmap = True, use_mlock = False\<rparr> 0,
                ReleaseStringUTFChars ''model.gguf'', Backend_free],
       heap = []\<rparr>)"
    using nativeInit_handle [of no_model_library world0 "''model.gguf''"]
    by (simp add: Let_def no_model_library_def demo_library_def world0_def
        init_model_params_def)
  have cont: "nativeInit no_context_library world0 ''model.gguf'' =
     (Returned 0,
      \<lparr>trace = [GetStringUTFChars ''model.gguf'' True, Fopen ''model.gguf'' True, Fseek_end,
                Ftell, Fclose, Backend_init, Model_default_params,
                Model_load_from_file ''model.gguf''
                  \<lparr>n_gpu_layers = 0, use_mmap = True, use_mlock = False\<rparr> 11,
                ReleaseStringUTFChars ''model.gguf'', Context_default_params,
                Init_from_model 11
                  \<lparr>n_ctx = 2048, n_batch = 512, n_threads = 4, n_threads_batch = 4\<rparr> 0,
                Model_free 11, Backend_free],
       heap = []\<rparr>)"
    using nativeInit_handle [of no_context_library world0 "''model.gguf''"]
    by (simp add: Let_def no_context_library_def demo_library_def world0_def
        init_model_params_def shim_ctx_params_def)
  have got: "jni_GetStringUTFChars (demo_library 1) (trace world0) ''model.gguf''"
    by (simp add: demo_library_def)
  from got ok nofile load cont show ?thesis by (intro conjI)
qed



subsection \<open>nativeDestroy\<close>

text \<open>
  C10. \<open>nativeDestroy\<close> with handle \<open>0\<close> changes nothing. With the address of a live
  wrapper it frees the sampler, the context and the model, in this order and each only
  if it is not null; the wrapper it then deletes has all three fields null; the backend
  is freed last, and the address is no longer in the heap.
\<close>

theorem nativeDestroy_frees_non_null_fields:
  "nativeDestroy w 0 = (Returned (), w) \<and>
   (h \<noteq> 0 \<and> map_of (heap w) h = Some wr \<longrightarrow>
      nativeDestroy w h =
        (Returned (),
         \<lparr>trace = trace w @
            (if sampler wr \<noteq> 0 then [Sampler_free (sampler wr)] else []) @
            (if ctx wr \<noteq> 0 then [Llama_free (ctx wr)] else []) @
            (if model wr \<noteq> 0 then [Model_free (model wr)] else []) @
            [Delete_wrapper h \<lparr>model = 0, ctx = 0, sampler = 0\<rparr>, Backend_free],
          heap = AList.delete h (heap w)\<rparr>) \<and>
      map_of (heap (snd (nativeDestroy w h))) h = None)"
  by (simp add: nativeDestroy_def destroy_fields_eq emit_def delete_conv')

theorem nativeDestroy_frees_non_null_fields_witness:
  "(1::nat) \<noteq> 0 \<and>
   map_of (heap world1) 1 = Some \<lparr>model = 11, ctx = 21, sampler = 30\<rparr> \<and>
   nativeDestroy world1 1 =
     (Returned (),
      \<lparr>trace = [Sampler_free 30, Llama_free 21, Model_free 11,
                Delete_wrapper 1 \<lparr>model = 0, ctx = 0, sampler = 0\<rparr>, Backend_free],
       heap = []\<rparr>)"
  using nativeDestroy_frees_non_null_fields
    [of world1 1 "\<lparr>model = 11, ctx = 21, sampler = 30\<rparr>"]
  by (simp add: world1_def)

subsection \<open>nativeGenerate\<close>

text \<open>
  C9. With handle \<open>0\<close>, or with a wrapper whose model is null, \<open>nativeGenerate\<close>
  returns the empty string; its only event is the construction of that string, so no
  library function is called, and the heap is unchanged.
\<close>

theorem nativeGenerate_null_handle_or_model:
  assumes "h = 0 \<or> (\<exists>wr. map_of (heap w) h = Some wr \<and> model wr = 0)"
  shows "nativeGenerate L w h p mt =
           (Returned [], \<lparr>trace = trace w @ [NewStringUTF []], heap = heap w\<rparr>)"
  using assms by (auto simp add: nativeGenerate_def emit_def)

theorem nativeGenerate_null_handle_or_model_witness:
  "nativeGenerate (demo_library 1) world1 0 ''hi'' 4 =
     (Returned [], \<lparr>trace = [NewStringUTF []], heap = heap world1\<rparr>)"
  using nativeGenerate_null_handle_or_model [of 0 world1 "demo_library 1" "''hi''" 4]
  by (simp add: world1_def)

text \<open>
  C1. With a live wrapper whose model is not null, \<open>nativeGenerate\<close> starts by
  recreating the context: the old context, if there is one, is freed, a new one is
  created for the wrapper's model with \<open>n_ctx = 2048\<close>, \<open>n_batch = 512\<close> and
  \<open>n_threads = 4\<close>, and it is the wrapper's context when the call ends. Everything else the
  call does comes after. If the new context is null, the call returns the placeholder
  of line 195 and does nothing else.
\<close>

theorem nativeGenerate_recreates_context:
  assumes "h \<noteq> 0" and "map_of (heap w) h = Some wr" and "model wr \<noteq> 0"
  shows "let pre = trace w @ (if ctx wr \<noteq> 0 then [Llama_free (ctx wr)] else []) @
                     [Context_default_params];
             params = shim_ctx_params L;
             c = llama_new_context_with_model L pre (model wr) params
         in n_ctx params = 2048 \<and> n_batch params = 512 \<and> n_threads params = 4 \<and>
            (\<exists>out w' rest. nativeGenerate L w h p mt = (out, w') \<and>
               trace w' = pre @ New_context_with_model (model wr) params c # rest \<and>
               map_of (heap w') h = Some (wr\<lparr>ctx := c\<rparr>) \<and>
               (c = 0 \<longrightarrow> out = Returned ctx_fail_msg \<and> rest = [NewStringUTF ctx_fail_msg]))"
proof -
  define fr where "fr = (if ctx wr \<noteq> 0 then [Llama_free (ctx wr)] else [])"
  define c where "c = llama_new_context_with_model L (trace w @ fr @ [Context_default_params])
                        (model wr) (shim_ctx_params L)"
  have params: "n_ctx (shim_ctx_params L) = 2048" "n_batch (shim_ctx_params L) = 512"
    "n_threads (shim_ctx_params L) = 4"
    by (simp_all add: shim_ctx_params_def)
  from nativeGenerate_run [OF assms, of L p mt, folded fr_def, folded c_def]
  obtain out w' rest where run: "nativeGenerate L w h p mt = (out, w')"
    "trace w' = trace w @ fr @ [Context_default_params,
                  New_context_with_model (model wr) (shim_ctx_params L) c] @ rest"
    "map_of (heap w') h = Some (wr\<lparr>ctx := c\<rparr>)"
    "c = 0 \<longrightarrow> out = Returned ctx_fail_msg \<and> rest = [NewStringUTF ctx_fail_msg]"
    by blast
  from run(2) have tr: "trace w' = (trace w @ fr @ [Context_default_params]) @
      New_context_with_model (model wr) (shim_ctx_params L) c # rest"
    by simp
  have "\<exists>out w' rest. nativeGenerate L w h p mt = (out, w') \<and>
          trace w' = (trace w @ fr @ [Context_default_params]) @
            New_context_with_model (model wr) (shim_ctx_params L) c # rest \<and>
          map_of (heap w') h = Some (wr\<lparr>ctx := c\<rparr>) \<and>
          (c = 0 \<longrightarrow> out = Returned ctx_fail_msg \<and> rest = [NewStringUTF ctx_fail_msg])"
    using run(1,3,4) tr by blast
  with params show ?thesis
    unfolding Let_def c_def fr_def by (intro conjI)
qed

theorem nativeGenerate_recreates_context_witness:
  "(1::nat) \<noteq> 0 \<and>
   map_of (heap world1) 1 = Some \<lparr>model = 11, ctx = 21, sampler = 30\<rparr> \<and>
   (\<exists>out w' rest. nativeGenerate (demo_library 1) world1 1 ''hi'' 4 = (out, w') \<and>
      trace w' =
        [Llama_free 21, Context_default_params,
         New_context_with_model 11
           \<lparr>n_ctx = 2048, n_batch = 512, n_threads = 4, n_threads_batch = 4\<rparr> 22] @ rest \<and>
      map_of (heap w') 1 = Some \<lparr>model = 11, ctx = 22, sampler = 30\<rparr>)"
  using nativeGenerate_recreates_context
    [of 1 world1 "\<lparr>model = 11, ctx = 21, sampler = 30\<rparr>" "demo_library 1" "''hi''" 4]
  by (simp add: world1_def demo_library_def shim_ctx_params_def Let_def)

text \<open>
  C2, as the code has it. With handle \<open>0\<close> or a null model the call returns the empty
  string at once. At every other failure the code detects, the call only releases the
  prompt, where it still holds it, and builds the string it returns: no library
  function is called again. That string is the placeholder for a context that could
  not be recreated, the empty string for a failure before the generation loop, and the
  text appended so far for a failure inside the loop.
\<close>

theorem nativeGenerate_failure_handling:
  assumes "h = 0 \<or> (\<exists>wr. map_of (heap w) h = Some wr)"
  shows "\<exists>out w' evs. nativeGenerate L w h p mt = (out, w') \<and> trace w' = trace w @ evs \<and>
     (h = 0 \<or> (\<exists>wr. map_of (heap w) h = Some wr \<and> model wr = 0) \<longrightarrow>
        out = Returned [] \<and> evs = [NewStringUTF []]) \<and>
     (\<forall>pre e post. evs = pre @ e # post \<and> detected_failure e \<longrightarrow>
        (post = [NewStringUTF (failure_result pre e)] \<or>
         post = [ReleaseStringUTFChars p, NewStringUTF (failure_result pre e)]) \<and>
        out = Returned (failure_result pre e))"
proof -
  have "\<exists>out w' evs. nativeGenerate L w h p mt = (out, w') \<and> trace w' = trace w @ evs \<and>
     (h = 0 \<or> (\<exists>wr. map_of (heap w) h = Some wr \<and> model wr = 0) \<longrightarrow>
        out = Returned [] \<and> evs = [NewStringUTF []]) \<and> handled p evs out"
  proof (cases "h = 0 \<or> (\<exists>wr. map_of (heap w) h = Some wr \<and> model wr = 0)")
    case True
    then have "nativeGenerate L w h p mt = (Returned [], emit w [NewStringUTF []])"
      by (auto simp: nativeGenerate_def)
    then show ?thesis
      by (intro exI [of _ "Returned []"] exI [of _ "emit w [NewStringUTF []]"]
            exI [of _ "[NewStringUTF []]"])
        (simp add: trace_emit handled_def)
  next
    case False
    with assms obtain wr where wr: "h \<noteq> 0" "map_of (heap w) h = Some wr" "model wr \<noteq> 0"
      by auto
    define fr where "fr = (if ctx wr \<noteq> 0 then [Llama_free (ctx wr)] else [])"
    define c where "c = llama_new_context_with_model L (trace w @ fr @ [Context_default_params])
                          (model wr) (shim_ctx_params L)"
    define pre where "pre = fr @ [Context_default_params,
                                  New_context_with_model (model wr) (shim_ctx_params L) c]"
    from nativeGenerate_run [OF wr, of L p mt, folded fr_def, folded c_def, folded pre_def]
    obtain out w' rest where run: "nativeGenerate L w h p mt = (out, w')"
      "trace w' = trace w @ pre @ rest"
      "c = 0 \<longrightarrow> out = Returned ctx_fail_msg \<and> rest = [NewStringUTF ctx_fail_msg]"
      "c \<noteq> 0 \<longrightarrow> handled p rest out"
      by (auto simp: pre_def)
    have fr: "first_failure fr = None" "\<not> list_ex is_sample fr" "appended fr = []"
      by (simp_all add: fr_def)
    have "handled p (pre @ rest) out"
    proof (cases "c = 0")
      case True
      with run(3) fr show ?thesis
        by (simp add: pre_def handled_def failure_result_def first_failure_append)
    next
      case False
      with fr have "first_failure pre = None" "\<not> list_ex is_sample pre" "appended pre = []"
        by (simp_all add: pre_def first_failure_append appended_append)
      with run(4) False show ?thesis
        by (intro handled_prefix) simp_all
    qed
    with run(1,2) False show ?thesis
      by (intro exI [of _ out] exI [of _ w'] exI [of _ "pre @ rest"]) auto
  qed
  then obtain out w' evs where
    "nativeGenerate L w h p mt = (out, w')" "trace w' = trace w @ evs"
    "h = 0 \<or> (\<exists>wr. map_of (heap w) h = Some wr \<and> model wr = 0) \<longrightarrow>
        out = Returned [] \<and> evs = [NewStringUTF []]"
    "handled p evs out"
    by blast
  then show ?thesis
    using handled_forall [of p evs out]
    by (intro exI [of _ out] exI [of _ w'] exI [of _ evs]) blast
qed

theorem nativeGenerate_failure_handling_witness:
  "((1::nat) = 0 \<or> (\<exists>wr. map_of (heap world1) 1 = Some wr)) \<and>
   (\<exists>out w' evs. nativeGenerate (demo_library 1) world1 1 ''hi'' 4 = (out, w') \<and>
      trace w' = trace world1 @ evs \<and>
      (\<forall>pre e post. evs = pre @ e # post \<and> detected_failure e \<longrightarrow>
         (post = [NewStringUTF (failure_result pre e)] \<or>
          post = [ReleaseStringUTFChars ''hi'', NewStringUTF (failure_result pre e)]) \<and>
         out = Returned (failure_result pre e)))"
proof -
  have h: "(1::nat) = 0 \<or> (\<exists>wr. map_of (heap world1) 1 = Some wr)"
    by (simp add: world1_def)
  from nativeGenerate_failure_handling [OF h, of "demo_library 1" "''hi''" 4] h
  show ?thesis by blast
qed

text \<open>
  C2 as stated fails inside the loop: the first sampled token is appended to the
  result, \<open>llama_decode\<close> then fails on it, and the call returns the appended text, which
  is neither empty nor the placeholder.
\<close>

theorem nativeGenerate_loop_failure_counterexample:
  "nativeGenerate (demo_library 1) world1 1 ''hi'' 4 =
     (Returned ''ok'',
      \<lparr>trace =
         [Llama_free 21, Context_default_params,
          New_context_with_model 11
            \<lparr>n_ctx = 2048, n_batch = 512, n_threads = 4, n_threads_batch = 4\<rparr> 22,
          N_ctx 22 2048, N_batch 22, GetStringUTFChars ''hi'' True,
          Model_get_vocab 11 40, Tokenize 40 ''hi'' 0 (- 3), N_ctx 22 2048,
          Tokenize 40 ''hi'' 3 3, ReleaseStringUTFChars ''hi'',
          Batch_get_one [1, 7, 9], Decode 22 [1, 7, 9] 0,
          Sampler_sample 30 22 5, Vocab_is_eog 40 5 False,
          Token_to_piece 40 5 2 ''ok'', Batch_get_one [5], Decode 22 [5] 1,
          NewStringUTF ''ok''],
       heap = [(1, \<lparr>model = 11, ctx = 22, sampler = 30\<rparr>)]\<rparr>) \<and>
   ''ok'' \<noteq> [] \<and> ''ok'' \<noteq> ctx_fail_msg"
  by (simp add: run_defs demo_library_def world1_def ctx_fail_msg_def)

text \<open>
  C8. The limit is reduced to \<open>n_ctx - n_prompt_tokens - 10\<close>; when that is negative
  and the prompt is decoded, line 344 asks \<open>std::string\<close> to reserve a negative number
  of bytes and the call does not return. First run: a prompt of 2040 tokens in a
  context of 2048 with \<open>max_tokens = 100\<close>, so the limit is \<open>-2\<close>. Second run: the same
  line is reached with a negative \<open>max_tokens\<close> argument.
\<close>

theorem nativeGenerate_negative_limit_aborts:
  "effective_max_tokens 2040 100 2048 = - 2 \<and>
   nativeGenerate long_prompt_library world1 1 ''hi'' 100 =
     (Aborted,
      \<lparr>trace =
         [Llama_free 21, Context_default_params,
          New_context_with_model 11
            \<lparr>n_ctx = 2048, n_batch = 512, n_threads = 4, n_threads_batch = 4\<rparr> 22,
          N_ctx 22 2048, N_batch 22, GetStringUTFChars ''hi'' True,
          Model_get_vocab 11 40, Tokenize 40 ''hi'' 0 (- 2040), N_ctx 22 2048,
          Tokenize 40 ''hi'' 2040 2040, ReleaseStringUTFChars ''hi'',
          Batch_get_one (replicate 2040 1), Decode 22 (replicate 2040 1) 0],
       heap = [(1, \<lparr>model = 11, ctx = 22, sampler = 30\<rparr>)]\<rparr>) \<and>
   fst (nativeGenerate (demo_library 1) world1 1 ''hi'' (- 1)) = Aborted"
  by (simp add: run_defs demo_library_def long_prompt_library_def world1_def)

end
